theory Spec2Isabelle
  imports Main
begin

section \<open>Go strings\<close>

text \<open>
  A Go string is a sequence of bytes: \<^typ>\<open>string\<close>. Go's \<open>int\<close> is modelled as
  \<^typ>\<open>int\<close>; the only place where its width matters is \<open>strconv.Atoi\<close>, which refuses
  what does not fit 64 bits, and no arithmetic of the handler can overflow after that
  (the parsed index is at least 1 when 1 is subtracted from it).

  Every call of \<open>strings.Split\<close> and \<open>strings.SplitN\<close> in the handler passes the
  one-byte separator \<open>" "\<close>, so the separator is a \<^typ>\<open>char\<close> here.
\<close>

definition sp :: char where
  "sp = CHR '' ''"

text \<open>\<open>strings.HasPrefix\<close>: \<open>len(s) >= len(prefix) && s[:len(prefix)] == prefix\<close>.\<close>

definition HasPrefix :: "string \<Rightarrow> string \<Rightarrow> bool" where
  "HasPrefix s pre = (length pre \<le> length s \<and> take (length pre) s = pre)"

text \<open>\<open>strings.IndexByte\<close>: the position of the first occurrence, if any.\<close>

fun IndexByte :: "string \<Rightarrow> char \<Rightarrow> nat option" where
  "IndexByte [] c = None"
| "IndexByte (x # xs) c = (if x = c then Some 0 else map_option Suc (IndexByte xs c))"

text \<open>\<open>strings.Count\<close> for a one-byte separator.\<close>

definition Count :: "string \<Rightarrow> char \<Rightarrow> nat" where
  "Count s c = length (filter (\<lambda>x. x = c) s)"

text \<open>
  The loop of \<open>strings.genSplit\<close>, with \<open>k\<close> the number of cuts still allowed
  (\<open>n - 1 - i\<close> in the Go source): it cuts at the first separator, and stops when there
  is none or when no cut is left; the rest of the string is the last segment.
\<close>

fun genSplit :: "string \<Rightarrow> char \<Rightarrow> nat \<Rightarrow> string list" where
  "genSplit s c 0 = [s]"
| "genSplit s c (Suc k) =
     (case IndexByte s c of
        None \<Rightarrow> [s]
      | Some m \<Rightarrow> take m s # genSplit (drop (m + 1) s) c k)"

text \<open>
  \<open>strings.SplitN(s, sep, n)\<close>: \<open>n = 0\<close> gives nil, \<open>n < 0\<close> all the segments
  (\<open>Count + 1\<close> of them), \<open>n > 0\<close> at most \<open>n\<close> segments, and never more than
  \<open>len(s) + 1\<close>. \<open>strings.Split(s, sep)\<close> is \<open>SplitN\<close> with \<open>n = -1\<close>.
\<close>

definition SplitN :: "string \<Rightarrow> char \<Rightarrow> int \<Rightarrow> string list" where
  "SplitN s c n =
     (if n = 0 then []
      else if n < 0 then genSplit s c (Count s c)
      else genSplit s c (nat (min n (int (length s) + 1)) - 1))"

definition Split :: "string \<Rightarrow> char \<Rightarrow> string list" where
  "Split s c = SplitN s c (- 1)"

subsection \<open>Decimal numbers\<close>

definition is_digit :: "char \<Rightarrow> bool" where
  "is_digit ch = (48 \<le> (of_char ch :: nat) \<and> (of_char ch :: nat) \<le> 57)"

definition digit_val :: "char \<Rightarrow> int" where
  "digit_val ch = int (of_char ch) - 48"

text \<open>
  \<open>strconv.Atoi\<close> on a 64-bit platform: an optional sign, then at least one decimal
  digit and nothing else; a value outside \<open>[-2^63, 2^63)\<close> is a range error. Every
  error is \<^const>\<open>None\<close>: the caller only tests \<open>err != nil\<close>.
\<close>

definition Atoi :: "string \<Rightarrow> int option" where
  "Atoi s =
     (let neg = (s \<noteq> [] \<and> hd s = CHR ''-'');
          ds = (if s \<noteq> [] \<and> (hd s = CHR ''-'' \<or> hd s = CHR ''+'') then tl s else s)
      in if ds = [] then None
         else if list_all is_digit ds
         then let n = foldl (\<lambda>a ch. a * 10 + digit_val ch) 0 ds;
                  v = (if neg then - n else n)
              in if - (2 ^ 63) \<le> v \<and> v < 2 ^ 63 then Some v else None
         else None)"

text \<open>The verb \<open>%d\<close> of \<open>fmt.Sprintf\<close>: a decimal numeral, with \<open>-\<close> when negative.\<close>

fun fmt_nat :: "nat \<Rightarrow> string" where
  "fmt_nat n =
     (if n < 10 then [char_of (48 + n)]
      else fmt_nat (n div 10) @ [char_of (48 + n mod 10)])"

definition fmt_d :: "int \<Rightarrow> string" where
  "fmt_d i = (if i < 0 then CHR ''-'' # fmt_nat (nat (- i)) else fmt_nat (nat i))"

subsection \<open>What the specification calls an integer\<close>

text \<open>
  The words of the specification, "the second segment is an integer", written out
  on their own, to be compared with what \<open>strconv.Atoi\<close> does: a decimal numeral is an
  optional sign followed by one or more of the digits \<open>0\<close> to \<open>9\<close> and nothing else,
  and it denotes the number its digits give in base ten, negated after \<open>-\<close>.
\<close>

definition numeral_digits :: "string \<Rightarrow> string" where
  "numeral_digits s =
     (case s of
        [] \<Rightarrow> []
      | c # cs \<Rightarrow> if c = CHR ''-'' then cs else if c = CHR ''+'' then cs else s)"

definition is_integer_numeral :: "string \<Rightarrow> bool" where
  "is_integer_numeral s =
     (numeral_digits s \<noteq> [] \<and> list_all (\<lambda>c. c \<in> set ''0123456789'') (numeral_digits s))"

text \<open>The value of a string of digits, from its last digit on.\<close>

fun digits_value_rev :: "string \<Rightarrow> int" where
  "digits_value_rev [] = 0"
| "digits_value_rev (c # cs) = digit_val c + 10 * digits_value_rev cs"

definition numeral_value :: "string \<Rightarrow> int" where
  "numeral_value s =
     (case s of
        [] \<Rightarrow> 0
      | c # cs \<Rightarrow>
          if c = CHR ''-'' then - digits_value_rev (rev (numeral_digits s))
          else digits_value_rev (rev (numeral_digits s)))"

section \<open>The command parser\<close>

text \<open>\<open>parseSendCommand\<close>: recipient and message text, or two empty strings.\<close>

definition parseSendCommand :: "string \<Rightarrow> string \<times> string" where
  "parseSendCommand command =
     (let parts = SplitN command sp 3
      in if length parts < 3 then ('''', '''')
         else (parts ! 1, parts ! 2))"

text \<open>\<open>parseReadCommand\<close>: the zero-based index, or \<open>-1\<close>.\<close>

definition parseReadCommand :: "string \<Rightarrow> int" where
  "parseReadCommand command =
     (let parts = Split command sp
      in if length parts < 2 then - 1
         else (case Atoi (parts ! 1) of
                 None \<Rightarrow> - 1
               | Some index \<Rightarrow> if index < 1 then - 1 else index - 1))"

text \<open>\<open>parseRegisterCommand\<close>: the user name, or the empty string.\<close>

definition parseRegisterCommand :: "string \<Rightarrow> string" where
  "parseRegisterCommand command =
     (let parts = SplitN command sp 3
      in if length parts < 3 then ''''
         else parts ! 2)"

section \<open>The data model\<close>

text \<open>
  \<open>store.Message\<close> (\<open>internal/store/store.go\<close>). \<open>time.Time\<close> is an instant, here
  an integer; the handler only stores it and prints it.
\<close>

record Message =
  ID :: int
  Sender :: string
  Time :: int
  Payload :: string

text \<open>
  Go errors. An error may wrap another one, and \<open>errors.Is\<close> walks the chain;
  \<open>nil\<close> is \<^const>\<open>None\<close>.
\<close>

text \<open>
  Modelled from the spec: the sentinel \<open>store.ErrConflict\<close>, which the handler tests
  but \<open>internal/store/store.go\<close> does not declare: the "conflict" outcome of
  \<open>registerUser\<close>, a name already taken.
\<close>

datatype error = ErrConflict | Failure string | Wrapped string error

fun Is :: "error \<Rightarrow> error \<Rightarrow> bool" where
  "Is (Wrapped msg e) target = (Wrapped msg e = target \<or> Is e target)"
| "Is e target = (e = target)"

definition errors_Is :: "error option \<Rightarrow> error \<Rightarrow> bool" where
  "errors_Is err target = (case err of None \<Rightarrow> False | Some e \<Rightarrow> Is e target)"

text \<open>
  The interface \<open>store.Store\<close>. An implementation keeps its data in a state \<open>'s\<close>,
  which every call takes and returns; a result \<open>(value, error)\<close> of Go is a sum, with
  \<^const>\<open>Inl\<close> the error. \<open>GetMessage\<close> returns a pointer, which may be nil.
  The context argument, which carries only cancellation, is left out.
\<close>

text \<open>
  Modelled from the spec: the method \<open>RegisterUser\<close>, which the handler calls but the
  interface in \<open>internal/store/store.go\<close> does not declare:
  \<open>registerUser(identity, username) -> ok | conflict | storeError\<close>.
\<close>

record 's Store =
  FindRecepient :: "string \<Rightarrow> 's \<Rightarrow> (error + string) \<times> 's"
  ListMessages :: "string \<Rightarrow> 's \<Rightarrow> (error + Message list) \<times> 's"
  GetMessage :: "int \<Rightarrow> 's \<Rightarrow> (error + Message option) \<times> 's"
  SaveMessage :: "string \<Rightarrow> Message \<Rightarrow> 's \<Rightarrow> error option \<times> 's"
  RegisterUser :: "string \<Rightarrow> string \<Rightarrow> 's \<Rightarrow> error option \<times> 's"

text \<open>The calls a handler makes on the store, in order.\<close>

datatype call =
  CallFindRecepient string
| CallListMessages string
| CallGetMessage int
| CallSaveMessage string Message
| CallRegisterUser string string

text \<open>
  Modelled from the spec: the package \<open>internal/models\<close>, which is not among the
  sources. The request envelope is
  \<open>{ request: { type, command }, session: { new, user: { user_id } }, timezone }\<close>, the
  response envelope \<open>{ response: { text }, version }\<close>, and the only request type
  accepted is \<open>"SimpleUtterance"\<close>. The field names are those the handler uses.
\<close>

record SimpleUtterance =
  Type :: string
  Command :: string

record models_User =
  UserID :: string

record models_Session =
  New :: bool
  User :: models_User

record models_Request =
  Request :: SimpleUtterance
  Session :: models_Session
  Timezone :: string

record models_ResponsePayload =
  Text :: string

record models_Response =
  Response :: models_ResponsePayload
  Version :: string

definition TypeSimpleUtterance :: string where
  "TypeSimpleUtterance = ''SimpleUtterance''"

text \<open>
  What the handler reads of \<open>*http.Request\<close>: the method, and the body as
  \<open>json.Decoder.Decode\<close> sees it, \<^const>\<open>None\<close> when decoding returns an error.
\<close>

record http_Request =
  Method :: string
  Body :: "models_Request option"

definition MethodPost :: string where
  "MethodPost = ''POST''"

definition StatusBadRequest :: nat where
  "StatusBadRequest = 400"

definition StatusMethodNotAllowed :: nat where
  "StatusMethodNotAllowed = 405"

definition StatusUnprocessableEntity :: nat where
  "StatusUnprocessableEntity = 422"

definition StatusInternalServerError :: nat where
  "StatusInternalServerError = 500"

definition StatusOK :: nat where
  "StatusOK = 200"

text \<open>
  How a run of the handler ends: \<open>w.WriteHeader(status)\<close> followed by \<open>return\<close>, a
  bare status with no body; \<open>enc.Encode(resp)\<close> on a writer no header was written to,
  which sends status 200 and the envelope; or a run-time panic, after which nothing is
  written and \<open>net/http\<close> drops the connection.
\<close>

datatype panic = IndexOutOfRange int nat | NilDereference

datatype outcome = WriteHeader nat | Encode models_Response | Panic panic

fun status_of :: "outcome \<Rightarrow> nat option" where
  "status_of (WriteHeader code) = Some code"
| "status_of (Encode resp) = Some StatusOK"
| "status_of (Panic p) = None"

fun body_of :: "outcome \<Rightarrow> models_Response option" where
  "body_of (Encode resp) = Some resp"
| "body_of other = None"

text \<open>
  What the handler uses of the package \<open>time\<close>: the instant \<open>time.Now()\<close> (read at most
  once in a request), \<open>time.LoadLocation\<close>, the hour and minute of
  \<open>t.In(loc).Clock()\<close>, and the text of a \<open>time.Time\<close> under the verb \<open>%s\<close>.
\<close>

record 'loc runtime =
  Now :: int
  LoadLocation :: "string \<Rightarrow> 'loc option"
  Clock :: "'loc \<Rightarrow> int \<Rightarrow> int \<times> int"
  TimeString :: "int \<Rightarrow> string"

section \<open>The handler\<close>

definition reply :: "string \<Rightarrow> outcome" where
  "reply text = Encode \<lparr>Response = \<lparr>Text = text\<rparr>, Version = ''1.0''\<rparr>"

text \<open>
  The four arms of the \<open>switch\<close> of \<open>webhook\<close>, each a definition of its own. An arm
  returns how the request ends, the store calls it made and the state of the store.
\<close>

text \<open>The arm \<open>strings.HasPrefix(req.Request.Command, "Send")\<close>.\<close>

definition webhook_Send ::
  "'loc runtime \<Rightarrow> 's Store \<Rightarrow> models_Request \<Rightarrow> 's \<Rightarrow> outcome \<times> call list \<times> 's" where
  "webhook_Send rt a req st =
     (case parseSendCommand (Command (Request req)) of
        (username, message) \<Rightarrow>
          (case FindRecepient a username st of
             (Inl err, st1) \<Rightarrow>
               (WriteHeader StatusInternalServerError, [CallFindRecepient username], st1)
           | (Inr recepientID, st1) \<Rightarrow>
               (let msg = \<lparr>ID = 0, Sender = UserID (User (Session req)),
                            Time = Now rt, Payload = message\<rparr>;
                    calls = [CallFindRecepient username, CallSaveMessage recepientID msg]
                in case SaveMessage a recepientID msg st1 of
                     (Some err, st2) \<Rightarrow> (WriteHeader StatusInternalServerError, calls, st2)
                   | (None, st2) \<Rightarrow>
                       (reply ''The message was sent successfully.'', calls, st2))))"

text \<open>
  The arm \<open>strings.HasPrefix(req.Request.Command, "Read")\<close>. The expression
  \<open>messages[messageIndex]\<close> panics when the index is negative or not below the length.
  The text set before the test of the length is overwritten on every path.
\<close>

definition webhook_Read ::
  "'loc runtime \<Rightarrow> 's Store \<Rightarrow> models_Request \<Rightarrow> 's \<Rightarrow> outcome \<times> call list \<times> 's" where
  "webhook_Read rt a req st =
     (let messageIndex = parseReadCommand (Command (Request req));
          userID = UserID (User (Session req))
      in case ListMessages a userID st of
           (Inl err, st1) \<Rightarrow>
             (WriteHeader StatusInternalServerError, [CallListMessages userID], st1)
         | (Inr messages, st1) \<Rightarrow>
             if int (length messages) < messageIndex
             then (reply ''There is no such a message.'', [CallListMessages userID], st1)
             else if messageIndex < 0 \<or> int (length messages) \<le> messageIndex
             then (Panic (IndexOutOfRange messageIndex (length messages)),
                   [CallListMessages userID], st1)
             else
               (let messageID = ID (messages ! nat messageIndex);
                    calls = [CallListMessages userID, CallGetMessage messageID]
                in case GetMessage a messageID st1 of
                     (Inl err, st2) \<Rightarrow> (WriteHeader StatusInternalServerError, calls, st2)
                   | (Inr None, st2) \<Rightarrow> (Panic NilDereference, calls, st2)
                   | (Inr (Some message), st2) \<Rightarrow>
                       (reply (''Message from '' @ Sender message @ '', was sent at ''
                                @ TimeString rt (Time message) @ '': '' @ Payload message),
                        calls, st2)))"

text \<open>The arm \<open>strings.HasPrefix(req.Request.Command, "Sign Up")\<close>.\<close>

definition webhook_SignUp ::
  "'loc runtime \<Rightarrow> 's Store \<Rightarrow> models_Request \<Rightarrow> 's \<Rightarrow> outcome \<times> call list \<times> 's" where
  "webhook_SignUp rt a req st =
     (let username = parseRegisterCommand (Command (Request req));
          userID = UserID (User (Session req))
      in case RegisterUser a userID username st of
           (err, st1) \<Rightarrow>
             if err \<noteq> None \<and> \<not> errors_Is err ErrConflict
             then (WriteHeader StatusInternalServerError, [CallRegisterUser userID username], st1)
             else
               (let text = ''You have successfully been registered as '' @ username;
                    text = (if errors_Is err ErrConflict
                            then ''Sorry, this name has already been used. Try another name.''
                            else text)
                in (reply text, [CallRegisterUser userID username], st1)))"

text \<open>The arm \<open>default\<close>.\<close>

definition webhook_default ::
  "'loc runtime \<Rightarrow> 's Store \<Rightarrow> models_Request \<Rightarrow> 's \<Rightarrow> outcome \<times> call list \<times> 's" where
  "webhook_default rt a req st =
     (let userID = UserID (User (Session req))
      in case ListMessages a userID st of
           (Inl err, st1) \<Rightarrow>
             (WriteHeader StatusInternalServerError, [CallListMessages userID], st1)
         | (Inr messages, st1) \<Rightarrow>
             (let text = (if length messages > 0
                          then ''There are '' @ fmt_d (int (length messages)) @ '' new messages.''
                          else ''There is no new messages for you.'')
              in if New (Session req)
                 then (case LoadLocation rt (Timezone req) of
                         None \<Rightarrow> (WriteHeader StatusBadRequest, [CallListMessages userID], st1)
                       | Some tz \<Rightarrow>
                           (case Clock rt tz (Now rt) of
                              (hour, minute) \<Rightarrow>
                                (reply (''Exact time '' @ fmt_d hour @ '' hours, ''
                                         @ fmt_d minute @ '' minutes. '' @ text),
                                 [CallListMessages userID], st1)))
                 else (reply text, [CallListMessages userID], st1)))"

text \<open>
  \<open>(*app).webhook\<close>, with the store of the \<open>app\<close> as \<open>a\<close>: the three tests every
  request goes through, then the \<open>switch\<close>, whose cases are tried in order.
\<close>

definition webhook ::
  "'loc runtime \<Rightarrow> 's Store \<Rightarrow> http_Request \<Rightarrow> 's \<Rightarrow> outcome \<times> call list \<times> 's" where
  "webhook rt a r st =
     (if Method r \<noteq> MethodPost then (WriteHeader StatusMethodNotAllowed, [], st)
      else case Body r of
        None \<Rightarrow> (WriteHeader StatusBadRequest, [], st)
      | Some req \<Rightarrow>
          if Type (Request req) \<noteq> TypeSimpleUtterance
          then (WriteHeader StatusUnprocessableEntity, [], st)
          else if HasPrefix (Command (Request req)) ''Send'' then webhook_Send rt a req st
          else if HasPrefix (Command (Request req)) ''Read'' then webhook_Read rt a req st
          else if HasPrefix (Command (Request req)) ''Sign Up'' then webhook_SignUp rt a req st
          else webhook_default rt a req st)"

section \<open>Instances of the interfaces\<close>

text \<open>
  Modelled from the spec: the in-memory variant of the store, which is not among the
  sources. Registration is one check-and-insert on the table of user names; a mailbox
  is the messages saved for an identity, in the order of saving; the store assigns the
  identifiers, increasing.
\<close>

record mem =
  users :: "(string \<times> string) list"
  mailboxes :: "(string \<times> Message) list"
  next_id :: int

definition mem_empty :: mem where
  "mem_empty = \<lparr>users = [], mailboxes = [], next_id = 1\<rparr>"

definition memStore :: "mem Store" where
  "memStore =
     \<lparr>FindRecepient = (\<lambda>username st.
         case map_of (users st) username of
           None \<Rightarrow> (Inl (Failure ''no such user''), st)
         | Some userID \<Rightarrow> (Inr userID, st)),
      ListMessages = (\<lambda>userID st.
         (Inr (map snd (filter (\<lambda>entry. fst entry = userID) (mailboxes st))), st)),
      GetMessage = (\<lambda>id st.
         case find (\<lambda>entry. ID (snd entry) = id) (mailboxes st) of
           None \<Rightarrow> (Inl (Failure ''no such message''), st)
         | Some entry \<Rightarrow> (Inr (Some (snd entry)), st)),
      SaveMessage = (\<lambda>userID msg st.
         (None, st\<lparr>mailboxes := mailboxes st @ [(userID, msg\<lparr>ID := next_id st\<rparr>)],
                   next_id := next_id st + 1\<rparr>)),
      RegisterUser = (\<lambda>userID username st.
         case map_of (users st) username of
           Some other \<Rightarrow> (Some ErrConflict, st)
         | None \<Rightarrow> (None, st\<lparr>users := users st @ [(username, userID)]\<rparr>))\<rparr>"

text \<open>A store that cannot reach its database: every call fails.\<close>

definition downStore :: "unit Store" where
  "downStore =
     \<lparr>FindRecepient = (\<lambda>username st. (Inl (Failure ''connection refused''), st)),
      ListMessages = (\<lambda>userID st. (Inl (Failure ''connection refused''), st)),
      GetMessage = (\<lambda>id st. (Inl (Failure ''connection refused''), st)),
      SaveMessage = (\<lambda>userID msg st. (Some (Failure ''connection refused''), st)),
      RegisterUser = (\<lambda>userID username st. (Some (Failure ''connection refused''), st))\<rparr>"

text \<open>
  A clock that knows the zone \<open>UTC\<close> only, counts instants in seconds and has an
  offset in hours as its location.
\<close>

definition utcClock :: "int runtime" where
  "utcClock =
     \<lparr>Now = 45296,
      LoadLocation = (\<lambda>name. if name = ''UTC'' then Some 0 else None),
      Clock = (\<lambda>offset t. ((t div 3600 + offset) mod 24, (t div 60) mod 60)),
      TimeString = (\<lambda>t. fmt_d t)\<rparr>"

text \<open>A \<open>POST\<close> request whose body decodes to a \<open>SimpleUtterance\<close>.\<close>

definition utterance :: "string \<Rightarrow> bool \<Rightarrow> string \<Rightarrow> string \<Rightarrow> http_Request" where
  "utterance command new user_id timezone =
     \<lparr>Method = ''POST'',
      Body = Some \<lparr>Request = \<lparr>Type = ''SimpleUtterance'', Command = command\<rparr>,
                   Session = \<lparr>New = new, User = \<lparr>UserID = user_id\<rparr>\<rparr>,
                   Timezone = timezone\<rparr>\<rparr>"

section \<open>Splitting a string\<close>

lemma IndexByte_None: "IndexByte s c = None \<longleftrightarrow> c \<notin> set s"
  by (induction s) auto

lemma IndexByte_append: "c \<notin> set a \<Longrightarrow> IndexByte (a @ c # b) c = Some (length a)"
  by (induction a) auto

lemma genSplit_nosep: "c \<notin> set s \<Longrightarrow> genSplit s c k = [s]"
  by (cases k) (simp_all add: IndexByte_None [THEN iffD2])


lemma genSplit_cut: "c \<notin> set a \<Longrightarrow> genSplit (a @ c # b) c (Suc k) = a # genSplit b c k"
  by (simp add: IndexByte_append)

declare genSplit.simps(2) [simp del]

lemma Count_nosep: "c \<notin> set a \<Longrightarrow> Count (a @ c # b) c = Suc (Count b c)"
  by (induction a) (auto simp: Count_def)

lemma Count_0: "Count s c = 0 \<longleftrightarrow> c \<notin> set s"
  by (induction s) (auto simp: Count_def)

lemma split_first: "c \<in> set s \<Longrightarrow> \<exists>a b. s = a @ c # b \<and> c \<notin> set a"
  by (meson split_list_first)

lemma length_genSplit: "length (genSplit s c k) = min k (Count s c) + 1"
proof (induction k arbitrary: s)
  case 0
  then show ?case by simp
next
  case (Suc k)
  show ?case
  proof (cases "c \<in> set s")
    case False
    then have cnt: "Count s c = 0" and one: "genSplit s c (Suc k) = [s]"
      by (simp_all only: Count_0 genSplit_nosep not_False_eq_True)
    show ?thesis unfolding cnt one by simp
  next
    case True
    from split_first [OF True] obtain a b where s: "s = a @ c # b" and a: "c \<notin> set a"
      by (elim exE conjE)
    have "length (genSplit s c (Suc k)) = Suc (length (genSplit b c k))"
      unfolding s using a by (simp add: genSplit_cut)
    also have "\<dots> = Suc (min k (Count b c) + 1)"
      by (simp only: Suc.IH)
    also have "\<dots> = min (Suc k) (Count s c) + 1"
      unfolding s using a by (simp add: Count_nosep)
    finally show ?thesis .
  qed
qed

lemma length_Split: "length (Split s c) = Count s c + 1"
  by (simp add: Split_def SplitN_def length_genSplit)

lemma Count_le_length: "Count s c \<le> length s"
  by (simp add: Count_def)

lemma SplitN3_cuts: "nat (min 3 (int n + 1)) - 1 = min 2 n"
  by (auto simp: min_def nat_add_distrib)

lemma min_min_le: "(k::nat) \<le> n \<Longrightarrow> min (min 2 n) k = min 2 k"
  by (simp add: min_def)

lemma SplitN3_eq: "SplitN s c 3 = genSplit s c (min 2 (length s))"
  unfolding SplitN_def SplitN3_cuts by simp

lemma length_SplitN3: "length (SplitN s c 3) = min 2 (Count s c) + 1"
proof -
  have "length (SplitN s c 3) = min (min 2 (length s)) (Count s c) + 1"
    by (simp only: SplitN3_eq length_genSplit)
  also have "min (min 2 (length s)) (Count s c) = min 2 (Count s c)"
    by (rule min_min_le [OF Count_le_length])
  finally show ?thesis .
qed

lemma genSplit_two_cuts:
  "c \<notin> set a \<Longrightarrow> c \<notin> set b \<Longrightarrow> genSplit (a @ c # b @ c # r) c (Suc (Suc 0)) = [a, b, r]"
  by (simp add: genSplit_cut)

lemma SplitN3_two_cuts:
  assumes "c \<notin> set a" "c \<notin> set b"
  shows "SplitN (a @ c # b @ c # r) c 3 = [a, b, r]"
proof -
  have "min 2 (length (a @ c # b @ c # r)) = Suc (Suc 0)"
    by (simp add: min_def)
  then show ?thesis
    by (simp only: SplitN3_eq genSplit_two_cuts [OF assms])
qed

lemma Split_second:
  assumes "c \<notin> set a" "c \<notin> set b"
  shows "Split (a @ c # b) c  = [a, b]" "Split (a @ c # b @ c # r) c ! Suc 0 = b"
  using assms by (simp_all add: Split_def SplitN_def Count_nosep genSplit_cut genSplit_nosep Count_0 [THEN iffD2])

section \<open>Decimal numerals\<close>

declare fmt_nat.simps [simp del]

lemma digit_chars:
  "char_of (48::nat) = CHR ''0''" "char_of (49::nat) = CHR ''1''" "char_of (50::nat) = CHR ''2''"
  "char_of (51::nat) = CHR ''3''" "char_of (52::nat) = CHR ''4''" "char_of (53::nat) = CHR ''5''"
  "char_of (54::nat) = CHR ''6''" "char_of (55::nat) = CHR ''7''" "char_of (56::nat) = CHR ''8''"
  "char_of (57::nat) = CHR ''9''"
  by (simp_all add: char_of_def bit_iff_odd)

lemma of_char_digit: "d < 10 \<Longrightarrow> (of_char (char_of (48 + d :: nat)) :: nat) = 48 + d"
  by simp

lemma is_digit_char_of: "d < 10 \<Longrightarrow> is_digit (char_of (48 + d :: nat))"
  by (simp add: is_digit_def)

lemma digit_val_char_of: "d < 10 \<Longrightarrow> digit_val (char_of (48 + d :: nat)) = int d"
  by (simp add: digit_val_def)

lemma fmt_nat_digits: "list_all is_digit (fmt_nat n)"
proof (induction n rule: fmt_nat.induct)
  case (1 n)
  show ?case
  proof (cases "n < 10")
    case True
    then show ?thesis by (subst fmt_nat.simps) (simp add: is_digit_char_of)
  next
    case False
    with 1 show ?thesis by (subst fmt_nat.simps) (simp add: is_digit_char_of)
  qed
qed

lemma fmt_nat_nonempty: "fmt_nat n \<noteq> []"
  by (subst fmt_nat.simps) simp

lemma fmt_nat_value: "foldl (\<lambda>a ch. a * 10 + digit_val ch) 0 (fmt_nat n) = int n"
proof (induction n rule: fmt_nat.induct)
  case (1 n)
  show ?case
  proof (cases "n < 10")
    case True
    then show ?thesis by (subst fmt_nat.simps) (simp add: digit_val_char_of)
  next
    case False
    with 1 have "foldl (\<lambda>a ch. a * 10 + digit_val ch) 0 (fmt_nat (n div 10)) = int (n div 10)"
      by simp
    with False show ?thesis
      by (subst fmt_nat.simps) (simp add: digit_val_char_of zdiv_int zmod_int)
  qed
qed

lemma is_digit_not_sign: "is_digit ch \<Longrightarrow> ch \<noteq> CHR ''-'' \<and> ch \<noteq> CHR ''+''"
  by (auto simp: is_digit_def)

lemma fmt_nat_hd: "hd (fmt_nat n) \<noteq> CHR ''-'' \<and> hd (fmt_nat n) \<noteq> CHR ''+''"
proof -
  have "is_digit (hd (fmt_nat n))"
    using fmt_nat_digits [of n] fmt_nat_nonempty [of n]
    by (cases "fmt_nat n") simp_all
  then show ?thesis by (rule is_digit_not_sign)
qed

lemma Atoi_fmt_d:
  assumes "- (2 ^ 63) \<le> i" "i < 2 ^ 63"
  shows "Atoi (fmt_d i) = Some i"
proof (cases "i < 0")
  case True
  then show ?thesis
    using assms fmt_nat_digits [of "nat (- i)"] fmt_nat_nonempty [of "nat (- i)"]
      fmt_nat_value [of "nat (- i)"]
    by (simp add: Atoi_def fmt_d_def Let_def)
next
  case False
  then show ?thesis
    using assms fmt_nat_digits [of "nat i"] fmt_nat_nonempty [of "nat i"]
      fmt_nat_value [of "nat i"] fmt_nat_hd [of "nat i"]
    by (simp add: Atoi_def fmt_d_def Let_def)
qed

lemma sp_notin_fmt_nat: "sp \<notin> set (fmt_nat n)"
proof
  assume "sp \<in> set (fmt_nat n)"
  with fmt_nat_digits [of n] have "is_digit sp"
    by (simp add: list_all_iff)
  then show False by (simp add: is_digit_def sp_def)
qed

lemma sp_notin_fmt_d: "sp \<notin> set (fmt_d i)"
  using sp_notin_fmt_nat by (simp add: fmt_d_def sp_def)

subsection \<open>Atoi reads exactly the decimal numerals that fit\<close>

lemma is_digit_iff: "is_digit c \<longleftrightarrow> c \<in> set ''0123456789''"
proof
  assume "c \<in> set ''0123456789''"
  then show "is_digit c" by (auto simp: is_digit_def)
next
  assume d: "is_digit c"
  define n where "n = (of_char c :: nat)"
  have c: "c = char_of n" by (simp add: n_def)
  from d have "48 \<le> n" "n \<le> 57" by (simp_all add: is_digit_def n_def)
  then have "n = 48 \<or> n = 49 \<or> n = 50 \<or> n = 51 \<or> n = 52 \<or> n = 53 \<or> n = 54 \<or> n = 55
      \<or> n = 56 \<or> n = 57"
    by arith
  then show "c \<in> set ''0123456789''"
    unfolding c by (elim disjE) (simp_all add: digit_chars)
qed

lemma list_all_digits: "list_all is_digit ds = list_all (\<lambda>c. c \<in> set ''0123456789'') ds"
  by (induction ds) (simp_all add: is_digit_iff del: set_simps)

lemma foldl_digits: "foldl (\<lambda>a ch. a * 10 + digit_val ch) 0 ds = digits_value_rev (rev ds)"
  by (induction ds rule: rev_induct) simp_all

lemma numeral_digits_alt:
  "numeral_digits s = (if s \<noteq> [] \<and> (hd s = CHR ''-'' \<or> hd s = CHR ''+'') then tl s else s)"
  by (cases s) (simp_all add: numeral_digits_def)

lemma numeral_value_alt:
  "numeral_value s =
     (if s \<noteq> [] \<and> hd s = CHR ''-'' then - digits_value_rev (rev (numeral_digits s))
      else digits_value_rev (rev (numeral_digits s)))"
  by (cases s) (simp_all add: numeral_value_def numeral_digits_def)

lemma Atoi_numeral:
  "Atoi s =
     (if is_integer_numeral s \<and> - (2 ^ 63) \<le> numeral_value s \<and> numeral_value s < 2 ^ 63
      then Some (numeral_value s) else None)"
  unfolding Atoi_def Let_def numeral_digits_alt [symmetric] foldl_digits list_all_digits
    is_integer_numeral_def numeral_value_alt
  by simp

section \<open>What the parsers return\<close>

lemmas parse_defs =
  HasPrefix_def parseSendCommand_def parseReadCommand_def parseRegisterCommand_def
  SplitN_def Split_def Count_def sp_def genSplit.simps(2) numeral_2_eq_2
  Atoi_def is_digit_def digit_val_def

lemma parseRead_one:
  assumes "sp \<notin> set kw" "sp \<notin> set seg"
  shows "parseReadCommand (kw @ sp # seg) =
     (case Atoi seg of None \<Rightarrow> - 1 | Some i \<Rightarrow> if i < 1 then - 1 else i - 1)"
  using assms by (simp add: parseReadCommand_def Split_second(1))

lemma parseRead_more:
  assumes "sp \<notin> set kw" "sp \<notin> set seg"
  shows "parseReadCommand (kw @ sp # seg @ sp # rest) =
     (case Atoi seg of None \<Rightarrow> - 1 | Some i \<Rightarrow> if i < 1 then - 1 else i - 1)"
proof -
  have "2 \<le> length (Split (kw @ sp # seg @ sp # rest) sp)"
    using assms by (simp add: length_Split Count_nosep)
  then show ?thesis
    using assms by (simp add: parseReadCommand_def Split_second(2) Let_def)
qed

lemma parseRead_range: "parseReadCommand command = - 1 \<or> 0 \<le> parseReadCommand command"
  by (simp add: parseReadCommand_def Let_def split: option.split)

lemma sp_notin_Read: "sp \<notin> set ''Read''"
  by (simp add: sp_def)

lemma read_index_numeral:
  "(case Atoi seg of None \<Rightarrow> - 1 | Some i \<Rightarrow> if i < 1 then - 1 else i - 1) =
   (if is_integer_numeral seg \<and> 1 \<le> numeral_value seg \<and> numeral_value seg < 2 ^ 63
    then numeral_value seg - 1 else - 1)"
  by (simp add: Atoi_numeral)

lemma numeral_digits_fmt_d: "numeral_digits (fmt_d n) = fmt_nat (nat \<bar>n\<bar>)"
proof (cases "n < 0")
  case True
  then show ?thesis by (simp add: fmt_d_def numeral_digits_def abs_if)
next
  case False
  then have "fmt_d n = fmt_nat (nat n)" by (simp add: fmt_d_def)
  moreover obtain c cs where "fmt_nat (nat n) = c # cs"
    using fmt_nat_nonempty [of "nat n"] by (cases "fmt_nat (nat n)") simp_all
  moreover have "hd (fmt_nat (nat n)) \<noteq> CHR ''-'' \<and> hd (fmt_nat (nat n)) \<noteq> CHR ''+''"
    by (rule fmt_nat_hd)
  ultimately show ?thesis using False by (simp add: numeral_digits_def abs_if)
qed

lemma is_integer_numeral_fmt_d: "is_integer_numeral (fmt_d n)"
  unfolding is_integer_numeral_def numeral_digits_fmt_d list_all_digits [symmetric]
  by (simp add: fmt_nat_nonempty fmt_nat_digits)

lemma numeral_value_fmt_d: "numeral_value (fmt_d n) = n"
proof -
  have v: "digits_value_rev (rev (numeral_digits (fmt_d n))) = int (nat \<bar>n\<bar>)"
    unfolding numeral_digits_fmt_d foldl_digits [symmetric] by (rule fmt_nat_value)
  show ?thesis
  proof (cases "n < 0")
    case True
    then have "fmt_d n \<noteq> [] \<and> hd (fmt_d n) = CHR ''-''" by (simp add: fmt_d_def)
    with v True show ?thesis by (simp add: numeral_value_alt)
  next
    case False
    then have "fmt_d n = fmt_nat (nat n)" by (simp add: fmt_d_def)
    then have "hd (fmt_d n) \<noteq> CHR ''-''" using fmt_nat_hd [of "nat n"] by simp
    with v False show ?thesis by (simp add: numeral_value_alt)
  qed
qed

lemma parseRead_fmt_d:
  "parseReadCommand (''Read '' @ fmt_d n) = (if 1 \<le> n \<and> n < 2 ^ 63 then n - 1 else - 1)"
proof -
  have "parseReadCommand (''Read'' @ sp # fmt_d n) =
      (if 1 \<le> n \<and> n < 2 ^ 63 then n - 1 else - 1)"
    unfolding parseRead_one [OF sp_notin_Read sp_notin_fmt_d] read_index_numeral
    by (simp add: is_integer_numeral_fmt_d numeral_value_fmt_d)
  then show ?thesis by (simp add: sp_def)
qed

text \<open>
  Claim C5 says that \<open>parseReadCommand\<close> splits on whitespace and returns the integer
  of the second segment minus one whenever that integer is at least 1. The parser
  cuts at the space character only, and at every one of them: a tab does not
  separate, so \<open>"Read<TAB>3"\<close> is one segment, and in \<open>"Read  3"\<close> the second segment
  is the empty string between the two spaces; both give \<open>-1\<close>, where \<open>"Read 3"\<close>
  gives 2. And \<open>9223372036854775808\<close> is an integer above 1 that \<open>strconv.Atoi\<close> refuses,
  because it does not fit an \<open>int\<close>: the result is \<open>-1\<close> again.
\<close>

theorem parseReadCommand_whitespace_counterexample:
  "parseReadCommand (''Read'' @ [CHR 0x09] @ ''3'') = - 1
   \<and> parseReadCommand ''Read  3'' = - 1
   \<and> parseReadCommand ''Read 3'' = 2
   \<and> parseReadCommand ''Read 9223372036854775808'' = - 1
   \<and> is_integer_numeral ''9223372036854775808''
   \<and> numeral_value ''9223372036854775808'' = 9223372036854775808"
  by (simp add: parse_defs is_integer_numeral_def numeral_digits_def numeral_value_def)

text \<open>
  Claim C5, as the parser has it. \<open>parseReadCommand\<close> cuts the command at every space
  character, and at nothing else. With fewer than two segments it returns \<open>-1\<close>.
  Otherwise the second segment decides, whether it is the last one or not: the result
  is \<open>-1\<close> when the segment is not a decimal numeral (an optional sign, then one or
  more digits), when its number is below 1, and when its number does not fit an
  \<open>int\<close> of 64 bits; otherwise it is that number minus one. The result is \<open>-1\<close> or not
  negative, so \<open>-1\<close> is no index of a mailbox. Printing a number gives a decimal
  numeral of that number, so \<open>"Read n"\<close> gives \<open>n - 1\<close> for every \<open>n\<close> from 1 that an
  \<open>int\<close> holds, and \<open>-1\<close> for every other \<open>n\<close>; \<open>"Read 3"\<close> gives 2 and \<open>"Read 0"\<close>
  gives \<open>-1\<close>.
\<close>

theorem parseReadCommand_spec:
  "(length (Split command sp) < 2 \<longrightarrow> parseReadCommand command = - 1)
   \<and> (sp \<notin> set kw \<and> sp \<notin> set seg \<longrightarrow>
        parseReadCommand (kw @ sp # seg) =
          (if is_integer_numeral seg \<and> 1 \<le> numeral_value seg \<and> numeral_value seg < 2 ^ 63
           then numeral_value seg - 1 else - 1)
      \<and> parseReadCommand (kw @ sp # seg @ sp # rest) =
          (if is_integer_numeral seg \<and> 1 \<le> numeral_value seg \<and> numeral_value seg < 2 ^ 63
           then numeral_value seg - 1 else - 1))
   \<and> (parseReadCommand command = - 1 \<or> 0 \<le> parseReadCommand command)
   \<and> is_integer_numeral (fmt_d n) \<and> numeral_value (fmt_d n) = n
   \<and> (1 \<le> n \<and> n < 2 ^ 63 \<longrightarrow> parseReadCommand (''Read '' @ fmt_d n) = n - 1)
   \<and> (n < 1 \<or> 2 ^ 63 \<le> n \<longrightarrow> parseReadCommand (''Read '' @ fmt_d n) = - 1)
   \<and> parseReadCommand ''Read 3'' = 2
   \<and> parseReadCommand ''Read 0'' = - 1"
proof (intro conjI impI)
  assume "length (Split command sp) < 2"
  then show "parseReadCommand command = - 1"
    by (simp add: parseReadCommand_def)
next
  assume "sp \<notin> set kw \<and> sp \<notin> set seg"
  then have k: "sp \<notin> set kw" and g: "sp \<notin> set seg" by simp_all
  show "parseReadCommand (kw @ sp # seg) =
      (if is_integer_numeral seg \<and> 1 \<le> numeral_value seg \<and> numeral_value seg < 2 ^ 63
       then numeral_value seg - 1 else - 1)"
    unfolding parseRead_one [OF k g] by (rule read_index_numeral)
next
  assume "sp \<notin> set kw \<and> sp \<notin> set seg"
  then have k: "sp \<notin> set kw" and g: "sp \<notin> set seg" by simp_all
  show "parseReadCommand (kw @ sp # seg @ sp # rest) =
      (if is_integer_numeral seg \<and> 1 \<le> numeral_value seg \<and> numeral_value seg < 2 ^ 63
       then numeral_value seg - 1 else - 1)"
    unfolding parseRead_more [OF k g] by (rule read_index_numeral)
next
  show "parseReadCommand command = - 1 \<or> 0 \<le> parseReadCommand command"
    by (rule parseRead_range)
next
  show "is_integer_numeral (fmt_d n)" by (rule is_integer_numeral_fmt_d)
next
  show "numeral_value (fmt_d n) = n" by (rule numeral_value_fmt_d)
next
  assume "1 \<le> n \<and> n < 2 ^ 63"
  then show "parseReadCommand (''Read '' @ fmt_d n) = n - 1"
    using parseRead_fmt_d [of n] by simp
next
  assume "n < 1 \<or> 2 ^ 63 \<le> n"
  then show "parseReadCommand (''Read '' @ fmt_d n) = - 1"
    using parseRead_fmt_d [of n] by auto
next
  show "parseReadCommand ''Read 3'' = 2"
    by (simp add: parse_defs)
next
  show "parseReadCommand ''Read 0'' = - 1"
    by (simp add: parse_defs)
qed

theorem parseReadCommand_spec_witness:
  "length (Split ''Read'' sp) < 2 \<and> parseReadCommand ''Read'' = - 1
   \<and> sp \<notin> set ''Read'' \<and> sp \<notin> set ''12'' \<and> sp \<notin> set ''abc''
   \<and> parseReadCommand ''Read 12'' = 11
   \<and> parseReadCommand ''Read 12 now'' = 11
   \<and> \<not> is_integer_numeral ''abc''
   \<and> parseReadCommand ''Read abc'' = - 1
   \<and> parseReadCommand ''Read abc now'' = - 1
   \<and> (1::int) \<le> 7 \<and> (7::int) < 2 ^ 63 \<and> parseReadCommand (''Read '' @ fmt_d 7) = 6
   \<and> (- 4 :: int) < 1 \<and> parseReadCommand (''Read '' @ fmt_d (- 4)) = - 1
   \<and> (2 ^ 63 :: int) \<le> 2 ^ 63 \<and> parseReadCommand (''Read '' @ fmt_d (2 ^ 63)) = - 1"
proof -
  have a: "length (Split ''Read'' sp) < 2 \<and> parseReadCommand ''Read'' = - 1
     \<and> sp \<notin> set ''Read'' \<and> sp \<notin> set ''12''
     \<and> parseReadCommand ''Read 12'' = 11 \<and> parseReadCommand ''Read 12 now'' = 11
     \<and> (1::int) \<le> 7 \<and> (7::int) < 2 ^ 63 \<and> parseReadCommand (''Read '' @ fmt_d 7) = 6"
    using parseReadCommand_spec [of "''Read''" "''Read''" "''12''" "''now''" 7]
    by (simp add: Split_def SplitN_def Count_def sp_def is_integer_numeral_def
        numeral_digits_def numeral_value_def digit_val_def)
  have b: "sp \<notin> set ''abc'' \<and> \<not> is_integer_numeral ''abc''
     \<and> parseReadCommand ''Read abc'' = - 1 \<and> parseReadCommand ''Read abc now'' = - 1
     \<and> (- 4 :: int) < 1 \<and> parseReadCommand (''Read '' @ fmt_d (- 4)) = - 1"
    using parseReadCommand_spec [of "''Read''" "''Read''" "''abc''" "''now''" "- 4"]
    by (simp add: sp_def is_integer_numeral_def numeral_digits_def)
  have c: "(2 ^ 63 :: int) \<le> 2 ^ 63 \<and> parseReadCommand (''Read '' @ fmt_d (2 ^ 63)) = - 1"
    using parseReadCommand_spec [of "''Read''" "''Read''" "''abc''" "''now''" "2 ^ 63"]
    by simp
  from a b c show ?thesis by blast
qed

text \<open>
  Claim C6 says that \<open>parseSendCommand\<close> splits into whitespace-delimited segments.
  The parser cuts at the space character only, and at each of the first two: with
  tabs, \<open>"Send<TAB>John<TAB>hi"\<close> is one segment and gives two empty strings; with two
  spaces after the keyword, \<open>"Send  John hi"\<close> has the empty string as its second
  segment, so the recipient is empty and the body is \<open>"John hi"\<close>.
\<close>

theorem parseSendCommand_whitespace_counterexample:
  "parseSendCommand (''Send'' @ [CHR 0x09] @ ''John'' @ [CHR 0x09] @ ''hi'') = ('''', '''')
   \<and> parseSendCommand ''Send  John hi'' = ('''', ''John hi'')
   \<and> parseSendCommand ''Send John hi'' = (''John'', ''hi'')"
  by (simp add: parse_defs)

text \<open>
  Claim C6, as the parser has it. \<open>parseSendCommand\<close> cuts the command at its first
  two space characters, and at nothing else. A command with fewer than three
  space-delimited segments gives two empty strings. Otherwise the second segment is
  the recipient and all that follows the second space is the body, unchanged, spaces
  and punctuation included. \<open>"Send John Hello there"\<close> gives \<open>"John"\<close> and
  \<open>"Hello there"\<close>; \<open>"Send John"\<close> gives two empty strings.
\<close>

theorem parseSendCommand_spec:
  "(length (Split command sp) < 3 \<longrightarrow> parseSendCommand command = ('''', ''''))
   \<and> (sp \<notin> set kw \<and> sp \<notin> set recipient \<longrightarrow>
        parseSendCommand (kw @ sp # recipient @ sp # body) = (recipient, body))
   \<and> parseSendCommand ''Send John Hello there'' = (''John'', ''Hello there'')
   \<and> parseSendCommand ''Send John'' = ('''', '''')"
proof (intro conjI impI)
  assume "length (Split command sp) < 3"
  then have "length (SplitN command sp 3) < 3"
    by (simp add: length_Split length_SplitN3)
  then show "parseSendCommand command = ('''', '''')"
    by (simp add: parseSendCommand_def)
next
  assume "sp \<notin> set kw \<and> sp \<notin> set recipient"
  then show "parseSendCommand (kw @ sp # recipient @ sp # body) = (recipient, body)"
    by (simp add: parseSendCommand_def SplitN3_two_cuts)
next
  show "parseSendCommand ''Send John Hello there'' = (''John'', ''Hello there'')"
    by (simp add: parseSendCommand_def SplitN_def sp_def genSplit.simps(2) numeral_2_eq_2)
next
  show "parseSendCommand ''Send John'' = ('''', '''')"
    by (simp add: parseSendCommand_def SplitN_def sp_def genSplit.simps(2) numeral_2_eq_2)
qed

theorem parseSendCommand_spec_witness:
  "length (Split ''Send'' sp) < 3 \<and> parseSendCommand ''Send'' = ('''', '''')
   \<and> sp \<notin> set ''Send'' \<and> sp \<notin> set ''Ann,''
   \<and> parseSendCommand ''Send Ann, see  you at 5!'' = (''Ann,'', ''see  you at 5!'')"
  using parseSendCommand_spec [of "''Send''" "''Send''" "''Ann,''" "''see  you at 5!''"]
  by (simp add: Split_def SplitN_def Count_def sp_def genSplit.simps(2))

text \<open>
  Claim C7 says that \<open>parseRegisterCommand\<close> splits into whitespace-delimited
  segments. The parser cuts at the space character only, and at each of the first
  two: \<open>"Sign Up<TAB>John"\<close> has two segments and gives the empty string, and
  \<open>"Sign  Up John"\<close>, with two spaces after the first word, gives \<open>"Up John"\<close>.
\<close>

theorem parseRegisterCommand_whitespace_counterexample:
  "parseRegisterCommand (''Sign Up'' @ [CHR 0x09] @ ''John'') = ''''
   \<and> parseRegisterCommand ''Sign  Up John'' = ''Up John''
   \<and> parseRegisterCommand ''Sign Up John'' = ''John''"
  by (simp add: parse_defs)

text \<open>
  Claim C7, as the parser has it. \<open>parseRegisterCommand\<close> cuts the command at its
  first two space characters, and at nothing else. A command with fewer than three
  space-delimited segments gives the empty string; otherwise the result is all that
  follows the second space, unchanged. \<open>"Sign Up John"\<close> gives \<open>"John"\<close>.
\<close>

theorem parseRegisterCommand_spec:
  "(length (Split command sp) < 3 \<longrightarrow> parseRegisterCommand command = '''')
   \<and> (sp \<notin> set kw1 \<and> sp \<notin> set kw2 \<longrightarrow>
        parseRegisterCommand (kw1 @ sp # kw2 @ sp # username) = username)
   \<and> parseRegisterCommand ''Sign Up John'' = ''John''"
proof (intro conjI impI)
  assume "length (Split command sp) < 3"
  then have "length (SplitN command sp 3) < 3"
    by (simp add: length_Split length_SplitN3)
  then show "parseRegisterCommand command = ''''"
    by (simp add: parseRegisterCommand_def)
next
  assume "sp \<notin> set kw1 \<and> sp \<notin> set kw2"
  then show "parseRegisterCommand (kw1 @ sp # kw2 @ sp # username) = username"
    by (simp add: parseRegisterCommand_def SplitN3_two_cuts)
next
  show "parseRegisterCommand ''Sign Up John'' = ''John''"
    by (simp add: parseRegisterCommand_def SplitN_def sp_def genSplit.simps(2) numeral_2_eq_2)
qed

theorem parseRegisterCommand_spec_witness:
  "length (Split ''Sign Up'' sp) < 3 \<and> parseRegisterCommand ''Sign Up'' = ''''
   \<and> sp \<notin> set ''Sign'' \<and> sp \<notin> set ''Up''
   \<and> parseRegisterCommand ''Sign Up Mary Ann'' = ''Mary Ann''"
  using parseRegisterCommand_spec [of "''Sign Up''" "''Sign''" "''Up''" "''Mary Ann''"]
  by (simp add: Split_def SplitN_def Count_def sp_def genSplit.simps(2))

section \<open>Evaluating the instances\<close>

lemma memStore_simps [simp]:
  "FindRecepient memStore username st =
     (case map_of (users st) username of
        None \<Rightarrow> (Inl (Failure ''no such user''), st)
      | Some userID \<Rightarrow> (Inr userID, st))"
  "ListMessages memStore userID st =
     (Inr (map snd (filter (\<lambda>entry. fst entry = userID) (mailboxes st))), st)"
  "GetMessage memStore i st =
     (case find (\<lambda>entry. ID (snd entry) = i) (mailboxes st) of
        None \<Rightarrow> (Inl (Failure ''no such message''), st)
      | Some entry \<Rightarrow> (Inr (Some (snd entry)), st))"
  "SaveMessage memStore userID msg st =
     (None, st\<lparr>mailboxes := mailboxes st @ [(userID, msg\<lparr>ID := next_id st\<rparr>)],
               next_id := next_id st + 1\<rparr>)"
  "RegisterUser memStore userID username st =
     (case map_of (users st) username of
        Some other \<Rightarrow> (Some ErrConflict, st)
      | None \<Rightarrow> (None, st\<lparr>users := users st @ [(username, userID)]\<rparr>))"
  by (simp_all add: memStore_def)

lemma downStore_simps [simp]:
  "FindRecepient downStore username st = (Inl (Failure ''connection refused''), st)"
  "ListMessages downStore userID st = (Inl (Failure ''connection refused''), st)"
  "GetMessage downStore i st = (Inl (Failure ''connection refused''), st)"
  "SaveMessage downStore userID msg st = (Some (Failure ''connection refused''), st)"
  "RegisterUser downStore userID username st = (Some (Failure ''connection refused''), st)"
  by (simp_all add: downStore_def)

lemma utcClock_simps [simp]:
  "Now utcClock = 45296"
  "LoadLocation utcClock name = (if name = ''UTC'' then Some 0 else None)"
  "Clock utcClock offset t = ((t div 3600 + offset) mod 24, (t div 60) mod 60)"
  "TimeString utcClock t = fmt_d t"
  by (simp_all add: utcClock_def)

section \<open>What the handler does\<close>

lemma HasPrefix_iff: "HasPrefix s pre \<longleftrightarrow> (\<exists>rest. s = pre @ rest)"
proof
  assume "HasPrefix s pre"
  then have "s = pre @ drop (length pre) s"
    by (metis HasPrefix_def append_take_drop_id)
  then show "\<exists>rest. s = pre @ rest" ..
next
  assume "\<exists>rest. s = pre @ rest"
  then show "HasPrefix s pre" by (auto simp: HasPrefix_def)
qed

lemma SignUp_not_Send: "HasPrefix c ''Sign Up'' \<Longrightarrow> \<not> HasPrefix c ''Send''"
  by (auto simp: HasPrefix_iff)

lemma SignUp_not_Read: "HasPrefix c ''Sign Up'' \<Longrightarrow> \<not> HasPrefix c ''Read''"
  by (auto simp: HasPrefix_iff)

lemma Read_not_Send: "HasPrefix c ''Read'' \<Longrightarrow> \<not> HasPrefix c ''Send''"
  by (auto simp: HasPrefix_iff)

lemma webhook_switch:
  assumes "Method r = MethodPost" "Body r = Some req" "Type (Request req) = TypeSimpleUtterance"
  shows "webhook rt a r st =
     (if HasPrefix (Command (Request req)) ''Send'' then webhook_Send rt a req st
      else if HasPrefix (Command (Request req)) ''Read'' then webhook_Read rt a req st
      else if HasPrefix (Command (Request req)) ''Sign Up'' then webhook_SignUp rt a req st
      else webhook_default rt a req st)"
  using assms by (simp add: webhook_def)

lemma calls_Send: "fst (snd (webhook_Send rt a req st)) \<noteq> []"
  by (simp add: webhook_Send_def Let_def split: prod.split sum.split option.split)

lemma calls_Read: "fst (snd (webhook_Read rt a req st)) \<noteq> []"
  by (simp add: webhook_Read_def Let_def split: prod.split sum.split option.split)

lemma calls_SignUp: "fst (snd (webhook_SignUp rt a req st)) \<noteq> []"
  by (simp add: webhook_SignUp_def Let_def split: prod.split)

lemma calls_default: "fst (snd (webhook_default rt a req st)) \<noteq> []"
  by (simp add: webhook_default_def Let_def split: prod.split sum.split option.split)

lemma calls_switch:
  assumes "Method r = MethodPost" "Body r = Some req" "Type (Request req) = TypeSimpleUtterance"
  shows "fst (snd (webhook rt a r st)) \<noteq> []"
  unfolding webhook_switch [OF assms]
  by (simp add: calls_Send calls_Read calls_SignUp calls_default)

lemma gate_method: "Method r \<noteq> MethodPost \<Longrightarrow> webhook rt a r st = (WriteHeader 405, [], st)"
  by (simp add: webhook_def StatusMethodNotAllowed_def)

lemma gate_body:
  "Method r = MethodPost \<Longrightarrow> Body r = None \<Longrightarrow> webhook rt a r st = (WriteHeader 400, [], st)"
  by (simp add: webhook_def StatusBadRequest_def)

lemma gate_type:
  "Method r = MethodPost \<Longrightarrow> Body r = Some req \<Longrightarrow> Type (Request req) \<noteq> TypeSimpleUtterance
   \<Longrightarrow> webhook rt a r st = (WriteHeader 422, [], st)"
  by (simp add: webhook_def StatusUnprocessableEntity_def)

lemma calls_gates:
  assumes "fst (snd (webhook rt a r st)) \<noteq> []"
  shows "Method r = MethodPost \<and> (\<exists>req. Body r = Some req \<and> Type (Request req) = TypeSimpleUtterance)"
proof (cases "Method r = MethodPost")
  case False
  with assms show ?thesis by (simp add: gate_method)
next
  case post: True
  show ?thesis
  proof (cases "Body r")
    case None
    with assms post show ?thesis by (simp add: gate_body)
  next
    case (Some req)
    with assms post show ?thesis by (cases "Type (Request req) = TypeSimpleUtterance") (simp_all add: gate_type)
  qed
qed

text \<open>
  Claim C8. The three tests come in this order, and each ends the request with a bare
  status, no store call and the store unchanged: a method other than \<open>POST\<close> gives
  405; a \<open>POST\<close> whose body does not decode gives 400; a decoded request of a type
  other than \<open>"SimpleUtterance"\<close> gives 422. A request that passes the three goes to
  the arm its command selects, and every arm calls the store; so a store call is only
  ever made for a \<open>POST\<close> request that decodes to a \<open>"SimpleUtterance"\<close>.
\<close>

theorem webhook_gates:
  "(Method r \<noteq> ''POST'' \<longrightarrow> webhook rt a r st = (WriteHeader 405, [], st))
   \<and> (Method r = ''POST'' \<and> Body r = None \<longrightarrow> webhook rt a r st = (WriteHeader 400, [], st))
   \<and> (Method r = ''POST'' \<and> Body r = Some req \<and> Type (Request req) \<noteq> ''SimpleUtterance'' \<longrightarrow>
        webhook rt a r st = (WriteHeader 422, [], st))
   \<and> (Method r = ''POST'' \<and> Body r = Some req \<and> Type (Request req) = ''SimpleUtterance'' \<longrightarrow>
        webhook rt a r st =
          (if HasPrefix (Command (Request req)) ''Send'' then webhook_Send rt a req st
           else if HasPrefix (Command (Request req)) ''Read'' then webhook_Read rt a req st
           else if HasPrefix (Command (Request req)) ''Sign Up'' then webhook_SignUp rt a req st
           else webhook_default rt a req st)
        \<and> fst (snd (webhook rt a r st)) \<noteq> [])
   \<and> (fst (snd (webhook rt a r st)) \<noteq> [] \<longrightarrow>
        Method r = ''POST'' \<and> (\<exists>q. Body r = Some q \<and> Type (Request q) = ''SimpleUtterance''))"
  using gate_method [of r rt a st] gate_body [of r rt a st] gate_type [of r req rt a st]
    webhook_switch [of r req rt a st] calls_switch [of r req rt a st] calls_gates [of rt a r st]
  unfolding MethodPost_def TypeSimpleUtterance_def
  by blast

theorem webhook_gates_witness:
  "webhook utcClock memStore \<lparr>Method = ''GET'', Body = None\<rparr> mem_empty = (WriteHeader 405, [], mem_empty)
   \<and> webhook utcClock memStore \<lparr>Method = ''POST'', Body = None\<rparr> mem_empty = (WriteHeader 400, [], mem_empty)
   \<and> webhook utcClock memStore
        \<lparr>Method = ''POST'',
         Body = Some \<lparr>Request = \<lparr>Type = ''ButtonPressed'', Command = ''Read 1''\<rparr>,
                      Session = \<lparr>New = False, User = \<lparr>UserID = ''u1''\<rparr>\<rparr>,
                      Timezone = ''UTC''\<rparr>\<rparr> mem_empty
       = (WriteHeader 422, [], mem_empty)
   \<and> fst (snd (webhook utcClock memStore (utterance ''Sign Up John'' True ''u1'' ''UTC'') mem_empty)) \<noteq> []
   \<and> Method (utterance ''Sign Up John'' True ''u1'' ''UTC'') = ''POST''"
  using webhook_gates [of "\<lparr>Method = ''GET'', Body = None\<rparr>" utcClock memStore mem_empty]
    webhook_gates [of "\<lparr>Method = ''POST'', Body = None\<rparr>" utcClock memStore mem_empty]
    webhook_gates [of "\<lparr>Method = ''POST'',
         Body = Some \<lparr>Request = \<lparr>Type = ''ButtonPressed'', Command = ''Read 1''\<rparr>,
                      Session = \<lparr>New = False, User = \<lparr>UserID = ''u1''\<rparr>\<rparr>,
                      Timezone = ''UTC''\<rparr>\<rparr>" utcClock memStore mem_empty
         "\<lparr>Request = \<lparr>Type = ''ButtonPressed'', Command = ''Read 1''\<rparr>,
                      Session = \<lparr>New = False, User = \<lparr>UserID = ''u1''\<rparr>\<rparr>,
                      Timezone = ''UTC''\<rparr>"]
    webhook_gates [of "utterance ''Sign Up John'' True ''u1'' ''UTC''" utcClock memStore mem_empty
         "\<lparr>Request = \<lparr>Type = ''SimpleUtterance'', Command = ''Sign Up John''\<rparr>,
                      Session = \<lparr>New = True, User = \<lparr>UserID = ''u1''\<rparr>\<rparr>,
                      Timezone = ''UTC''\<rparr>"]
  by (simp add: utterance_def HasPrefix_def calls_SignUp)

lemma webhook_is_SignUp:
  assumes "Method r = MethodPost" "Body r = Some req" "Type (Request req) = TypeSimpleUtterance"
    and "HasPrefix (Command (Request req)) ''Sign Up''"
  shows "webhook rt a r st = webhook_SignUp rt a req st"
  using assms SignUp_not_Send SignUp_not_Read by (simp add: webhook_switch)

text \<open>
  Claim C3. For a request that reaches the arm \<open>"Sign Up"\<close> and whose command parses to
  the name \<open>u\<close>, the handler calls \<open>RegisterUser\<close> once, with the caller's identity
  and \<open>u\<close>. When the store returns no error, the reply text is
  \<open>"You have successfully been registered as "\<close> followed by \<open>u\<close>, with status 200;
  when it returns the conflict error, the reply is the fixed apology, with status 200;
  on any other error the request ends with the bare status 500 and no body.
\<close>

theorem webhook_SignUp_outcomes:
  assumes "Method r = ''POST''" and "Body r = Some req"
    and "Type (Request req) = ''SimpleUtterance''"
    and "HasPrefix (Command (Request req)) ''Sign Up''"
    and "parseRegisterCommand (Command (Request req)) = u"
    and "RegisterUser a (UserID (User (Session req))) u st = (err, st')"
  shows "(err = None \<longrightarrow>
            webhook rt a r st =
              (Encode \<lparr>Response = \<lparr>Text = ''You have successfully been registered as '' @ u\<rparr>,
                       Version = ''1.0''\<rparr>,
               [CallRegisterUser (UserID (User (Session req))) u], st')
          \<and> status_of (fst (webhook rt a r st)) = Some 200)
       \<and> (errors_Is err ErrConflict \<longrightarrow>
            webhook rt a r st =
              (Encode \<lparr>Response =
                         \<lparr>Text = ''Sorry, this name has already been used. Try another name.''\<rparr>,
                       Version = ''1.0''\<rparr>,
               [CallRegisterUser (UserID (User (Session req))) u], st')
          \<and> status_of (fst (webhook rt a r st)) = Some 200)
       \<and> (err \<noteq> None \<and> \<not> errors_Is err ErrConflict \<longrightarrow>
            webhook rt a r st =
              (WriteHeader 500, [CallRegisterUser (UserID (User (Session req))) u], st')
          \<and> body_of (fst (webhook rt a r st)) = None)"
proof -
  have "webhook rt a r st = webhook_SignUp rt a req st"
    using assms(1-4) by (intro webhook_is_SignUp) (simp_all add: MethodPost_def TypeSimpleUtterance_def)
  then show ?thesis
    using assms(5,6)
    by (auto simp: webhook_SignUp_def reply_def StatusInternalServerError_def StatusOK_def
        errors_Is_def)
qed

theorem webhook_SignUp_outcomes_witness:
  "webhook utcClock memStore (utterance ''Sign Up John'' True ''u1'' ''UTC'') mem_empty =
     (Encode \<lparr>Response = \<lparr>Text = ''You have successfully been registered as John''\<rparr>,
              Version = ''1.0''\<rparr>,
      [CallRegisterUser ''u1'' ''John''],
      \<lparr>users = [(''John'', ''u1'')], mailboxes = [], next_id = 1\<rparr>)
   \<and> status_of (fst (webhook utcClock memStore (utterance ''Sign Up John'' True ''u1'' ''UTC'')
         mem_empty)) = Some 200
   \<and> webhook utcClock memStore (utterance ''Sign Up John'' True ''u2'' ''UTC'')
        \<lparr>users = [(''John'', ''u1'')], mailboxes = [], next_id = 1\<rparr> =
     (Encode \<lparr>Response =
                \<lparr>Text = ''Sorry, this name has already been used. Try another name.''\<rparr>,
              Version = ''1.0''\<rparr>,
      [CallRegisterUser ''u2'' ''John''],
      \<lparr>users = [(''John'', ''u1'')], mailboxes = [], next_id = 1\<rparr>)
   \<and> webhook utcClock downStore (utterance ''Sign Up John'' True ''u1'' ''UTC'') () =
     (WriteHeader 500, [CallRegisterUser ''u1'' ''John''], ())"
proof -
  have 1: "webhook utcClock memStore (utterance ''Sign Up John'' True ''u1'' ''UTC'') mem_empty =
     (Encode \<lparr>Response = \<lparr>Text = ''You have successfully been registered as John''\<rparr>,
              Version = ''1.0''\<rparr>,
      [CallRegisterUser ''u1'' ''John''],
      \<lparr>users = [(''John'', ''u1'')], mailboxes = [], next_id = 1\<rparr>)
   \<and> status_of (fst (webhook utcClock memStore (utterance ''Sign Up John'' True ''u1'' ''UTC'')
         mem_empty)) = Some 200"
    using webhook_SignUp_outcomes [of "utterance ''Sign Up John'' True ''u1'' ''UTC''"
      "the (Body (utterance ''Sign Up John'' True ''u1'' ''UTC''))" "''John''" memStore mem_empty
      None "\<lparr>users = [(''John'', ''u1'')], mailboxes = [], next_id = 1\<rparr>" utcClock]
    by (simp add: utterance_def parse_defs mem_empty_def errors_Is_def StatusOK_def)
  have 2: "webhook utcClock memStore (utterance ''Sign Up John'' True ''u2'' ''UTC'')
        \<lparr>users = [(''John'', ''u1'')], mailboxes = [], next_id = 1\<rparr> =
     (Encode \<lparr>Response =
                \<lparr>Text = ''Sorry, this name has already been used. Try another name.''\<rparr>,
              Version = ''1.0''\<rparr>,
      [CallRegisterUser ''u2'' ''John''],
      \<lparr>users = [(''John'', ''u1'')], mailboxes = [], next_id = 1\<rparr>)"
    using webhook_SignUp_outcomes [of "utterance ''Sign Up John'' True ''u2'' ''UTC''"
      "the (Body (utterance ''Sign Up John'' True ''u2'' ''UTC''))" "''John''" memStore
      "\<lparr>users = [(''John'', ''u1'')], mailboxes = [], next_id = 1\<rparr>"
      "Some ErrConflict" "\<lparr>users = [(''John'', ''u1'')], mailboxes = [], next_id = 1\<rparr>" utcClock]
    by (simp add: utterance_def parse_defs errors_Is_def)
  have 3: "webhook utcClock downStore (utterance ''Sign Up John'' True ''u1'' ''UTC'') () =
     (WriteHeader 500, [CallRegisterUser ''u1'' ''John''], ())"
    using webhook_SignUp_outcomes [of "utterance ''Sign Up John'' True ''u1'' ''UTC''"
      "the (Body (utterance ''Sign Up John'' True ''u1'' ''UTC''))" "''John''" downStore "()"
      "Some (Failure ''connection refused'')" "()" utcClock]
    by (simp add: utterance_def parse_defs errors_Is_def)
  from 1 2 3 show ?thesis by blast
qed

text \<open>
  Claim C10. A command that starts with \<open>"Sign Up"\<close> and has fewer than three
  space-delimited segments is not refused: the handler calls \<open>RegisterUser\<close> with the
  empty string as the name, and when the store accepts, the reply is the confirmation
  with the empty name.
\<close>

theorem webhook_SignUp_without_name:
  assumes "Method r = ''POST''" and "Body r = Some req"
    and "Type (Request req) = ''SimpleUtterance''"
    and "HasPrefix (Command (Request req)) ''Sign Up''"
    and "length (Split (Command (Request req)) sp) < 3"
    and "RegisterUser a (UserID (User (Session req))) '''' st = (err, st')"
  shows "fst (snd (webhook rt a r st)) = [CallRegisterUser (UserID (User (Session req))) '''']
       \<and> snd (snd (webhook rt a r st)) = st'
       \<and> (err = None \<longrightarrow>
            fst (webhook rt a r st) =
              Encode \<lparr>Response = \<lparr>Text = ''You have successfully been registered as ''\<rparr>,
                      Version = ''1.0''\<rparr>)"
proof -
  have "webhook rt a r st = webhook_SignUp rt a req st"
    using assms(1-4) by (intro webhook_is_SignUp) (simp_all add: MethodPost_def TypeSimpleUtterance_def)
  moreover have "length (SplitN (Command (Request req)) sp 3) < 3"
    using assms(5) by (simp add: length_Split length_SplitN3)
  then have "parseRegisterCommand (Command (Request req)) = ''''"
    by (simp add: parseRegisterCommand_def)
  ultimately show ?thesis
    using assms(6) by (simp add: webhook_SignUp_def reply_def errors_Is_def Let_def)
qed

theorem webhook_SignUp_without_name_witness:
  "fst (snd (webhook utcClock memStore (utterance ''Sign Up'' False ''u1'' ''UTC'') mem_empty)) =
     [CallRegisterUser ''u1'' '''']
   \<and> snd (snd (webhook utcClock memStore (utterance ''Sign Up'' False ''u1'' ''UTC'') mem_empty)) =
     \<lparr>users = [('''', ''u1'')], mailboxes = [], next_id = 1\<rparr>
   \<and> fst (webhook utcClock memStore (utterance ''Sign Up'' False ''u1'' ''UTC'') mem_empty) =
     Encode \<lparr>Response = \<lparr>Text = ''You have successfully been registered as ''\<rparr>,
             Version = ''1.0''\<rparr>"
  using webhook_SignUp_without_name [of "utterance ''Sign Up'' False ''u1'' ''UTC''"
      "the (Body (utterance ''Sign Up'' False ''u1'' ''UTC''))" memStore mem_empty
      None "\<lparr>users = [('''', ''u1'')], mailboxes = [], next_id = 1\<rparr>" utcClock]
  by (simp add: utterance_def parse_defs mem_empty_def)

lemma webhook_is_Send:
  assumes "Method r = MethodPost" "Body r = Some req" "Type (Request req) = TypeSimpleUtterance"
    and "HasPrefix (Command (Request req)) ''Send''"
  shows "webhook rt a r st = webhook_Send rt a req st"
  using assms by (simp add: webhook_switch)

text \<open>
  Claim C4 says that a malformed \<open>Send\<close> command gets a graceful reply or a client
  error and never saves a message. The handler does not look at what the parser
  returned. With a store in which the empty name is registered (claim C10 shows how
  that comes about), the command \<open>"Send"\<close> saves a message with an empty body for the
  owner of that name and confirms it; with the empty store, the lookup fails and the
  request ends with the server error 500.
\<close>

theorem webhook_Send_malformed_counterexample:
  "webhook utcClock memStore (utterance ''Send'' False ''u2'' ''UTC'')
       \<lparr>users = [('''', ''u1'')], mailboxes = [], next_id = 1\<rparr> =
     (Encode \<lparr>Response = \<lparr>Text = ''The message was sent successfully.''\<rparr>, Version = ''1.0''\<rparr>,
      [CallFindRecepient '''',
       CallSaveMessage ''u1'' \<lparr>ID = 0, Sender = ''u2'', Time = 45296, Payload = ''''\<rparr>],
      \<lparr>users = [('''', ''u1'')],
       mailboxes = [(''u1'', \<lparr>ID = 1, Sender = ''u2'', Time = 45296, Payload = ''''\<rparr>)],
       next_id = 2\<rparr>)
   \<and> parseSendCommand ''Send'' = ('''', '''')
   \<and> webhook utcClock memStore (utterance ''Send'' False ''u2'' ''UTC'') mem_empty =
     (WriteHeader 500, [CallFindRecepient ''''], mem_empty)"
  by (simp add: webhook_def utterance_def MethodPost_def TypeSimpleUtterance_def webhook_Send_def
      reply_def parse_defs mem_empty_def StatusInternalServerError_def Let_def)

text \<open>
  Claim C4, as the handler has it. For a \<open>Send\<close> command with fewer than three
  space-delimited segments the handler looks up the recipient named by the empty
  string. When the lookup fails the request ends with status 500 and nothing is
  saved. When it succeeds, the handler saves a message with the empty body, the
  caller as sender and the current time, for the identity found, and replies with the
  fixed confirmation, or ends with status 500 when saving fails.
\<close>

theorem webhook_Send_malformed:
  assumes "Method r = ''POST''" and "Body r = Some req"
    and "Type (Request req) = ''SimpleUtterance''"
    and "HasPrefix (Command (Request req)) ''Send''"
    and "length (Split (Command (Request req)) sp) < 3"
  shows "webhook rt a r st =
     (case FindRecepient a '''' st of
        (Inl err, st1) \<Rightarrow> (WriteHeader 500, [CallFindRecepient ''''], st1)
      | (Inr recepientID, st1) \<Rightarrow>
          (case SaveMessage a recepientID
                  \<lparr>ID = 0, Sender = UserID (User (Session req)), Time = Now rt, Payload = ''''\<rparr> st1 of
             (Some err, st2) \<Rightarrow>
               (WriteHeader 500,
                [CallFindRecepient '''',
                 CallSaveMessage recepientID
                   \<lparr>ID = 0, Sender = UserID (User (Session req)), Time = Now rt, Payload = ''''\<rparr>],
                st2)
           | (None, st2) \<Rightarrow>
               (Encode \<lparr>Response = \<lparr>Text = ''The message was sent successfully.''\<rparr>,
                        Version = ''1.0''\<rparr>,
                [CallFindRecepient '''',
                 CallSaveMessage recepientID
                   \<lparr>ID = 0, Sender = UserID (User (Session req)), Time = Now rt, Payload = ''''\<rparr>],
                st2)))"
proof -
  have "webhook rt a r st = webhook_Send rt a req st"
    using assms(1-4) by (intro webhook_is_Send) (simp_all add: MethodPost_def TypeSimpleUtterance_def)
  moreover have "length (SplitN (Command (Request req)) sp 3) < 3"
    using assms(5) by (simp add: length_Split length_SplitN3)
  then have "parseSendCommand (Command (Request req)) = ('''', '''')"
    by (simp add: parseSendCommand_def)
  ultimately show ?thesis
    by (simp add: webhook_Send_def reply_def StatusInternalServerError_def Let_def
        split: prod.split sum.split option.split)
qed

theorem webhook_Send_malformed_witness:
  "webhook utcClock memStore (utterance ''Send John'' False ''u2'' ''UTC'') mem_empty =
     (WriteHeader 500, [CallFindRecepient ''''], mem_empty)
   \<and> webhook utcClock memStore (utterance ''Send John'' False ''u2'' ''UTC'')
       \<lparr>users = [('''', ''u1'')], mailboxes = [], next_id = 1\<rparr> =
     (Encode \<lparr>Response = \<lparr>Text = ''The message was sent successfully.''\<rparr>, Version = ''1.0''\<rparr>,
      [CallFindRecepient '''',
       CallSaveMessage ''u1'' \<lparr>ID = 0, Sender = ''u2'', Time = 45296, Payload = ''''\<rparr>],
      \<lparr>users = [('''', ''u1'')],
       mailboxes = [(''u1'', \<lparr>ID = 1, Sender = ''u2'', Time = 45296, Payload = ''''\<rparr>)],
       next_id = 2\<rparr>)"
  using webhook_Send_malformed [of "utterance ''Send John'' False ''u2'' ''UTC''"
      "the (Body (utterance ''Send John'' False ''u2'' ''UTC''))" utcClock memStore mem_empty]
    webhook_Send_malformed [of "utterance ''Send John'' False ''u2'' ''UTC''"
      "the (Body (utterance ''Send John'' False ''u2'' ''UTC''))" utcClock memStore
      "\<lparr>users = [('''', ''u1'')], mailboxes = [], next_id = 1\<rparr>"]
  by (simp add: utterance_def parse_defs mem_empty_def)

lemma webhook_is_Read:
  assumes "Method r = MethodPost" "Body r = Some req" "Type (Request req) = TypeSimpleUtterance"
    and "HasPrefix (Command (Request req)) ''Read''"
  shows "webhook rt a r st = webhook_Read rt a req st"
  using assms Read_not_Send by (simp add: webhook_switch)

text \<open>
  The arm \<open>Read\<close> once the mailbox is listed: a position more than one beyond the
  mailbox gets the reply, the position just beyond it and the index \<open>-1\<close> panic.
\<close>

lemma webhook_Read_bounds:
  assumes "Method r = MethodPost" "Body r = Some req" "Type (Request req) = TypeSimpleUtterance"
    and "HasPrefix (Command (Request req)) ''Read''"
    and "ListMessages a (UserID (User (Session req))) st = (Inr messages, st1)"
    and "parseReadCommand (Command (Request req)) = i"
  shows "webhook rt a r st =
     (if int (length messages) < i
      then (reply ''There is no such a message.'',
            [CallListMessages (UserID (User (Session req)))], st1)
      else if i < 0 \<or> i = int (length messages)
      then (Panic (IndexOutOfRange i (length messages)),
            [CallListMessages (UserID (User (Session req)))], st1)
      else webhook_Read rt a req st)"
proof -
  have "webhook rt a r st = webhook_Read rt a req st"
    using assms(1-4) by (rule webhook_is_Read)
  then show ?thesis
    using assms(5,6) by (auto simp: webhook_Read_def Let_def)
qed

text \<open>
  Claim C1 says that a \<open>Read\<close> whose index is invalid, or whose position is beyond the
  mailbox, gets the "no such message" reply. The handler compares with \<open><\<close> where the
  mailbox needs \<open>\<le>\<close>, and does not test for a negative index: \<open>"Read 1"\<close> on an
  empty mailbox, \<open>"Read 0"\<close> (index \<open>-1\<close>) and \<open>"Read 2"\<close> on a mailbox of one message
  all reach \<open>messages[messageIndex]\<close> out of range, and the handler panics.
\<close>

theorem webhook_Read_panics:
  "webhook utcClock memStore (utterance ''Read 1'' False ''u1'' ''UTC'') mem_empty =
     (Panic (IndexOutOfRange 0 0), [CallListMessages ''u1''], mem_empty)
   \<and> webhook utcClock memStore (utterance ''Read 0'' False ''u1'' ''UTC'') mem_empty =
     (Panic (IndexOutOfRange (- 1) 0), [CallListMessages ''u1''], mem_empty)
   \<and> webhook utcClock memStore (utterance ''Read 2'' False ''u1'' ''UTC'')
       \<lparr>users = [(''John'', ''u1'')],
        mailboxes = [(''u1'', \<lparr>ID = 1, Sender = ''u2'', Time = 45296, Payload = ''Hello there''\<rparr>)],
        next_id = 2\<rparr> =
     (Panic (IndexOutOfRange 1 1), [CallListMessages ''u1''],
      \<lparr>users = [(''John'', ''u1'')],
        mailboxes = [(''u1'', \<lparr>ID = 1, Sender = ''u2'', Time = 45296, Payload = ''Hello there''\<rparr>)],
        next_id = 2\<rparr>)
   \<and> parseReadCommand ''Read 1'' = 0 \<and> parseReadCommand ''Read 0'' = - 1
   \<and> parseReadCommand ''Read 2'' = 1"
  by (simp add: webhook_def utterance_def MethodPost_def TypeSimpleUtterance_def webhook_Read_def
      reply_def parse_defs mem_empty_def StatusInternalServerError_def Let_def)

lemma webhook_is_default:
  assumes "Method r = MethodPost" "Body r = Some req" "Type (Request req) = TypeSimpleUtterance"
    and "\<not> HasPrefix (Command (Request req)) ''Send''"
    and "\<not> HasPrefix (Command (Request req)) ''Read''"
    and "\<not> HasPrefix (Command (Request req)) ''Sign Up''"
  shows "webhook rt a r st = webhook_default rt a req st"
  using assms by (simp add: webhook_switch)

lemma webhook_default_old_session:
  "\<not> New (Session req) \<Longrightarrow>
   webhook_default rt' a (req\<lparr>Timezone := tz'\<rparr>) st = webhook_default rt a req st"
  by (simp add: webhook_default_def Let_def split: prod.split sum.split)

text \<open>
  Claim C9 says that every request of a new session that takes the default arm with
  a time zone that cannot be loaded ends with status 400. The arm lists the mailbox
  first: when the store fails, the request ends with status 500 and the time zone is
  not looked at.
\<close>

theorem webhook_default_timezone_counterexample:
  "LoadLocation utcClock ''Mars/Phobos'' = None
   \<and> webhook utcClock downStore (utterance ''What is new'' True ''u1'' ''Mars/Phobos'') () =
     (WriteHeader 500, [CallListMessages ''u1''], ())"
  by (simp add: webhook_def utterance_def MethodPost_def TypeSimpleUtterance_def
      webhook_default_def parse_defs StatusInternalServerError_def Let_def)

lemma webhook_default_listing_fails:
  "ListMessages a (UserID (User (Session req))) st = (Inl err, st1) \<Longrightarrow>
   webhook_default rt a req st =
     (WriteHeader 500, [CallListMessages (UserID (User (Session req)))], st1)"
  by (simp add: webhook_default_def Let_def StatusInternalServerError_def)

text \<open>
  Claim C9, as the handler has it. A request that takes the default arm has its
  mailbox listed first. When the listing fails, the request ends with the bare status
  500, whatever the session flag, the time zone and the clock are: the time zone is
  not looked at. When the listing succeeds: in a new session, a time zone that cannot
  be loaded ends the request with the bare status 400, and one that loads gives the
  count text prefixed with the hour and minute of the current time in that zone; in a
  session that is not new the reply is the count text alone. In a session that is not
  new, neither the time zone of the request nor the clock has any influence on the
  result.
\<close>

theorem webhook_default_timezone:
  assumes "Method r = ''POST''" and "Body r = Some req"
    and "Type (Request req) = ''SimpleUtterance''"
    and "\<not> HasPrefix (Command (Request req)) ''Send''"
    and "\<not> HasPrefix (Command (Request req)) ''Read''"
    and "\<not> HasPrefix (Command (Request req)) ''Sign Up''"
    and "ListMessages a (UserID (User (Session req))) st = (listed, st1)"
    and "text = (if length messages > 0
                 then ''There are '' @ fmt_d (int (length messages)) @ '' new messages.''
                 else ''There is no new messages for you.'')"
  shows "(listed = Inl err \<longrightarrow>
            webhook rt a r st = (WriteHeader 500, [CallListMessages (UserID (User (Session req)))], st1)
          \<and> webhook rt' a (r\<lparr>Body := Some (req\<lparr>Timezone := tz'\<rparr>)\<rparr>) st = webhook rt a r st)
       \<and> (listed = Inr messages \<and> New (Session req) \<and> LoadLocation rt (Timezone req) = None \<longrightarrow>
            webhook rt a r st = (WriteHeader 400, [CallListMessages (UserID (User (Session req)))], st1))
       \<and> (listed = Inr messages \<and> New (Session req) \<and> LoadLocation rt (Timezone req) = Some tz
            \<and> Clock rt tz (Now rt) = (hour, minute) \<longrightarrow>
            webhook rt a r st =
              (Encode \<lparr>Response =
                         \<lparr>Text = ''Exact time '' @ fmt_d hour @ '' hours, '' @ fmt_d minute
                                  @ '' minutes. '' @ text\<rparr>,
                       Version = ''1.0''\<rparr>,
               [CallListMessages (UserID (User (Session req)))], st1))
       \<and> (listed = Inr messages \<and> \<not> New (Session req) \<longrightarrow>
            webhook rt a r st =
              (Encode \<lparr>Response = \<lparr>Text = text\<rparr>, Version = ''1.0''\<rparr>,
               [CallListMessages (UserID (User (Session req)))], st1))
       \<and> (\<not> New (Session req) \<longrightarrow>
            webhook rt' a (r\<lparr>Body := Some (req\<lparr>Timezone := tz'\<rparr>)\<rparr>) st = webhook rt a r st)"
proof -
  have d: "webhook rt a r st = webhook_default rt a req st"
    using assms(1-6) by (intro webhook_is_default) (simp_all add: MethodPost_def TypeSimpleUtterance_def)
  have d': "webhook rt' a (r\<lparr>Body := Some (req\<lparr>Timezone := tz'\<rparr>)\<rparr>) st =
      webhook_default rt' a (req\<lparr>Timezone := tz'\<rparr>) st"
    using assms(1-6) by (intro webhook_is_default) (simp_all add: MethodPost_def TypeSimpleUtterance_def)
  have "listed = Inl err \<longrightarrow>
      webhook_default rt a req st =
        (WriteHeader 500, [CallListMessages (UserID (User (Session req)))], st1)"
    using assms(7) by (simp add: webhook_default_listing_fails)
  moreover have "listed = Inl err \<longrightarrow>
      webhook_default rt' a (req\<lparr>Timezone := tz'\<rparr>) st = webhook_default rt a req st"
    using assms(7) by (simp add: webhook_default_def Let_def)
  moreover have "listed = Inr messages \<and> New (Session req) \<and> LoadLocation rt (Timezone req) = None \<longrightarrow>
      webhook_default rt a req st = (WriteHeader 400, [CallListMessages (UserID (User (Session req)))], st1)"
    using assms(7) by (simp add: webhook_default_def Let_def StatusBadRequest_def)
  moreover have "listed = Inr messages \<and> New (Session req) \<and> LoadLocation rt (Timezone req) = Some tz
            \<and> Clock rt tz (Now rt) = (hour, minute) \<longrightarrow>
      webhook_default rt a req st =
              (Encode \<lparr>Response =
                         \<lparr>Text = ''Exact time '' @ fmt_d hour @ '' hours, '' @ fmt_d minute
                                  @ '' minutes. '' @ text\<rparr>,
                       Version = ''1.0''\<rparr>,
               [CallListMessages (UserID (User (Session req)))], st1)"
    using assms(7,8) by (simp add: webhook_default_def Let_def reply_def)
  moreover have "listed = Inr messages \<and> \<not> New (Session req) \<longrightarrow>
      webhook_default rt a req st =
              (Encode \<lparr>Response = \<lparr>Text = text\<rparr>, Version = ''1.0''\<rparr>,
               [CallListMessages (UserID (User (Session req)))], st1)"
    using assms(7,8) by (simp add: webhook_default_def Let_def reply_def)
  moreover have "\<not> New (Session req) \<longrightarrow>
      webhook_default rt' a (req\<lparr>Timezone := tz'\<rparr>) st = webhook_default rt a req st"
    by (simp add: webhook_default_old_session)
  ultimately show ?thesis
    unfolding d d' by blast
qed

theorem webhook_default_timezone_witness:
  "webhook utcClock memStore (utterance ''What is new'' True ''u1'' ''Mars/Phobos'') mem_empty =
     (WriteHeader 400, [CallListMessages ''u1''], mem_empty)
   \<and> webhook utcClock memStore (utterance ''What is new'' True ''u1'' ''UTC'') mem_empty =
     (Encode \<lparr>Response =
                \<lparr>Text = ''Exact time 12 hours, 34 minutes. There is no new messages for you.''\<rparr>,
              Version = ''1.0''\<rparr>,
      [CallListMessages ''u1''], mem_empty)
   \<and> webhook utcClock memStore (utterance ''What is new'' False ''u1'' ''Mars/Phobos'')
        \<lparr>users = [(''John'', ''u1'')],
         mailboxes = [(''u1'', \<lparr>ID = 1, Sender = ''u2'', Time = 45296, Payload = ''Hello there''\<rparr>)],
         next_id = 2\<rparr> =
     (Encode \<lparr>Response = \<lparr>Text = ''There are 1 new messages.''\<rparr>, Version = ''1.0''\<rparr>,
      [CallListMessages ''u1''],
      \<lparr>users = [(''John'', ''u1'')],
         mailboxes = [(''u1'', \<lparr>ID = 1, Sender = ''u2'', Time = 45296, Payload = ''Hello there''\<rparr>)],
         next_id = 2\<rparr>)
   \<and> webhook utcClock downStore (utterance ''What is new'' True ''u1'' ''UTC'') () =
     (WriteHeader 500, [CallListMessages ''u1''], ())
   \<and> webhook utcClock downStore (utterance ''What is new'' True ''u1'' ''Mars/Phobos'') () =
     webhook utcClock downStore (utterance ''What is new'' True ''u1'' ''UTC'') ()"
proof -
  have 1: "webhook utcClock memStore (utterance ''What is new'' True ''u1'' ''Mars/Phobos'') mem_empty =
     (WriteHeader 400, [CallListMessages ''u1''], mem_empty)"
    using webhook_default_timezone [of "utterance ''What is new'' True ''u1'' ''Mars/Phobos''"
        "the (Body (utterance ''What is new'' True ''u1'' ''Mars/Phobos''))" memStore mem_empty
        "Inr []" mem_empty "''There is no new messages for you.''" "[]"
        "Failure ''none''" utcClock utcClock "''UTC''" 0 0 0]
    by (simp add: utterance_def parse_defs mem_empty_def)
  have 2: "webhook utcClock memStore (utterance ''What is new'' True ''u1'' ''UTC'') mem_empty =
     (Encode \<lparr>Response =
                \<lparr>Text = ''Exact time 12 hours, 34 minutes. There is no new messages for you.''\<rparr>,
              Version = ''1.0''\<rparr>,
      [CallListMessages ''u1''], mem_empty)"
    using webhook_default_timezone [of "utterance ''What is new'' True ''u1'' ''UTC''"
        "the (Body (utterance ''What is new'' True ''u1'' ''UTC''))" memStore mem_empty
        "Inr []" mem_empty "''There is no new messages for you.''" "[]"
        "Failure ''none''" utcClock utcClock "''UTC''" 0 12 34]
    by (simp add: utterance_def parse_defs mem_empty_def fmt_d_def fmt_nat.simps digit_chars)
  have 3: "webhook utcClock memStore (utterance ''What is new'' False ''u1'' ''Mars/Phobos'')
        \<lparr>users = [(''John'', ''u1'')],
         mailboxes = [(''u1'', \<lparr>ID = 1, Sender = ''u2'', Time = 45296, Payload = ''Hello there''\<rparr>)],
         next_id = 2\<rparr> =
     (Encode \<lparr>Response = \<lparr>Text = ''There are 1 new messages.''\<rparr>, Version = ''1.0''\<rparr>,
      [CallListMessages ''u1''],
      \<lparr>users = [(''John'', ''u1'')],
         mailboxes = [(''u1'', \<lparr>ID = 1, Sender = ''u2'', Time = 45296, Payload = ''Hello there''\<rparr>)],
         next_id = 2\<rparr>)"
    using webhook_default_timezone [of "utterance ''What is new'' False ''u1'' ''Mars/Phobos''"
        "the (Body (utterance ''What is new'' False ''u1'' ''Mars/Phobos''))" memStore
        "\<lparr>users = [(''John'', ''u1'')],
         mailboxes = [(''u1'', \<lparr>ID = 1, Sender = ''u2'', Time = 45296, Payload = ''Hello there''\<rparr>)],
         next_id = 2\<rparr>"
        "Inr [\<lparr>ID = 1, Sender = ''u2'', Time = 45296, Payload = ''Hello there''\<rparr>]"
        "\<lparr>users = [(''John'', ''u1'')],
         mailboxes = [(''u1'', \<lparr>ID = 1, Sender = ''u2'', Time = 45296, Payload = ''Hello there''\<rparr>)],
         next_id = 2\<rparr>" "''There are 1 new messages.''"
        "[\<lparr>ID = 1, Sender = ''u2'', Time = 45296, Payload = ''Hello there''\<rparr>]"
        "Failure ''none''" utcClock utcClock "''UTC''" 0 0 0]
    by (simp add: utterance_def parse_defs fmt_d_def fmt_nat.simps digit_chars)
  have 4: "webhook utcClock downStore (utterance ''What is new'' True ''u1'' ''UTC'') () =
     (WriteHeader 500, [CallListMessages ''u1''], ())
   \<and> webhook utcClock downStore (utterance ''What is new'' True ''u1'' ''Mars/Phobos'') () =
     webhook utcClock downStore (utterance ''What is new'' True ''u1'' ''UTC'') ()"
    using webhook_default_timezone [of "utterance ''What is new'' True ''u1'' ''UTC''"
        "the (Body (utterance ''What is new'' True ''u1'' ''UTC''))" downStore "()"
        "Inl (Failure ''connection refused'')" "()" "''There is no new messages for you.''" "[]"
        "Failure ''connection refused''" utcClock utcClock "''Mars/Phobos''" 0 0 0]
    by (simp add: utterance_def parse_defs)
  from 1 2 3 4 show ?thesis by blast
qed

end
